theory Spec2Isabelle
  imports Main
begin

section \<open>Data model of src/task-scheduler.ts\<close>

text \<open>
  A \<^verbatim>\<open>Date\<close> is its value in milliseconds since the epoch, so \<^verbatim>\<open>$lt\<close> and
  \<^verbatim>\<open>$gt\<close> on dates are \<open><\<close> and \<open>>\<close> on integers. A JavaScript \<^verbatim>\<open>Error\<close> is
  its message. A result \<open>error + 'a\<close> is a thrown error or a rejected promise on the
  left and a returned value or a resolved promise on the right.
\<close>

type_synonym Date = int

datatype error = Error (message: string)

text \<open>
  \<^verbatim>\<open>TaskExecutionLogEntry\<close>: both variants carry \<^verbatim>\<open>receivedTime\<close> and
  \<^verbatim>\<open>processingTime\<close> first; then \<^verbatim>\<open>erroredTime, errorMessage\<close> or
  \<^verbatim>\<open>completedTime, output\<close>.
\<close>

datatype TaskExecutionLogEntry =
    Errored Date int Date string
  | Completed Date int Date "string option"

text \<open>\<^verbatim>\<open>TaskDefinition\<close>; the field \<open>task_id\<close> is \<^verbatim>\<open>_id\<close>, an optional field is an option.\<close>

record TaskDefinition =
  task_id :: string
  cronSchedule :: string
  nextScheduledTime :: Date
  receivedTime :: "Date option"
  lastErroredTime :: "Date option"
  lastCompletedTime :: "Date option"
  executionLog :: "TaskExecutionLogEntry list option"

text \<open>
  The state an instance of \<^verbatim>\<open>TaskScheduler\<close> acts on. The first five fields are the
  fields of the class: \<open>taskWorkers\<close> is the \<^verbatim>\<open>Map\<close> from id to worker (workers are
  values of any type \<open>'w\<close>); \<open>pollingIntervalId\<close> is the armed interval timer,
  represented by its period, or \<open>None\<close> for \<^verbatim>\<open>undefined\<close>; \<open>databasePromise\<close> is
  \<open>None\<close> for \<^verbatim>\<open>undefined\<close>, \<open>Some (Inl e)\<close> for a function whose promise rejects
  with \<open>e\<close>, and \<open>Some (Inr ())\<close> for one that resolves to the database. The last
  two fields are the world outside the object: \<open>errorHandler\<close> lists the errors the
  \<^verbatim>\<open>errorHandler\<close> callback has been called with, oldest first, and \<open>collection\<close>
  is the documents of the MongoDB collection, in the order the store traverses them.
\<close>

record 'w state =
  taskWorkers :: "string \<rightharpoonup> 'w"
  pollingIntervalId :: "int option"
  pollingInterval :: int
  processingTimeout :: int
  databasePromise :: "(error + unit) option"
  errorHandler :: "error list"
  collection :: "TaskDefinition list"

text \<open>
  The cron parser is an external library. \<open>cron schedule ref\<close> stands for
  \<^verbatim>\<open>cronParser.parseExpression(schedule, {currentDate: ref, tz}).next().toDate()\<close>
  in the scheduler's time zone: a parse error, or the next fire time after \<open>ref\<close>.
  Every function that evaluates a schedule takes it as its first argument.
\<close>

type_synonym cronParser = "string \<Rightarrow> Date \<Rightarrow> error + Date"

section \<open>The MongoDB operations the scheduler uses\<close>

text \<open>\<^verbatim>\<open>updateOne(filter, update)\<close>: the first matching document is updated, none is a no-op.\<close>

fun updateOne :: "(TaskDefinition \<Rightarrow> bool) \<Rightarrow> (TaskDefinition \<Rightarrow> TaskDefinition)
    \<Rightarrow> TaskDefinition list \<Rightarrow> TaskDefinition list" where
  "updateOne q u [] = []"
| "updateOne q u (d # ds) = (if q d then u d # ds else d # updateOne q u ds)"

text \<open>
  \<^verbatim>\<open>findOneAndUpdate(filter, update, {returnDocument: 'after'})\<close>: atomically updates
  the first matching document and returns it as updated, or \<^verbatim>\<open>null\<close>.
\<close>

definition findOneAndUpdate :: "(TaskDefinition \<Rightarrow> bool) \<Rightarrow> (TaskDefinition \<Rightarrow> TaskDefinition)
    \<Rightarrow> TaskDefinition list \<Rightarrow> TaskDefinition list \<times> TaskDefinition option" where
  "findOneAndUpdate q u ds =
     (case find q ds of
        None \<Rightarrow> (ds, None)
      | Some d \<Rightarrow> (updateOne q u ds, Some (u d)))"

text \<open>\<^verbatim>\<open>insertOne(doc)\<close>: \<^verbatim>\<open>_id\<close> is the unique key of a collection.\<close>

definition insertOne :: "TaskDefinition \<Rightarrow> TaskDefinition list \<Rightarrow> error + TaskDefinition list" where
  "insertOne doc ds =
     (if find (\<lambda>d. task_id d = task_id doc) ds \<noteq> None
      then Inl (Error ''E11000 duplicate key error'')
      else Inr (ds @ [doc]))"

text \<open>\<^verbatim>\<open>{$pop: {executionLog: -1}}\<close> removes the first element of the array, if any.\<close>

definition pop_first :: "TaskDefinition \<Rightarrow> TaskDefinition" where
  "pop_first d = d\<lparr>executionLog := map_option tl (executionLog d)\<rparr>"

text \<open>\<^verbatim>\<open>{$push: {executionLog: e}}\<close> appends, creating the array when the field is absent.\<close>

definition push_log :: "TaskExecutionLogEntry \<Rightarrow> TaskDefinition \<Rightarrow> TaskDefinition" where
  "push_log e d =
     d\<lparr>executionLog := Some ((case executionLog d of None \<Rightarrow> [] | Some l \<Rightarrow> l) @ [e])\<rparr>"

section \<open>The private methods\<close>

definition getMongoCollection :: "'w state \<Rightarrow> error + unit" where
  "getMongoCollection s =
     (case databasePromise s of
        None \<Rightarrow> Inl (Error ''No database configured'')
      | Some p \<Rightarrow> p)"

definition findTask :: "'w state \<Rightarrow> string \<Rightarrow> error + TaskDefinition option" where
  "findTask s tid =
     (case getMongoCollection s of
        Inl e \<Rightarrow> Inl e
      | Inr _ \<Rightarrow> Inr (find (\<lambda>d. task_id d = tid) (collection s)))"

definition startPolling :: "'w state \<Rightarrow> 'w state" where
  "startPolling s =
     (if pollingIntervalId s = None
      then s\<lparr>pollingIntervalId := Some (pollingInterval s)\<rparr>
      else s)"

definition stopPolling :: "'w state \<Rightarrow> 'w state" where
  "stopPolling s =
     (if pollingIntervalId s \<noteq> None then s\<lparr>pollingIntervalId := None\<rparr> else s)"

text \<open>
  \<^verbatim>\<open>updateTask(task, update)\<close>: one \<^verbatim>\<open>updateOne\<close> by \<^verbatim>\<open>_id\<close>, then a second one
  popping the oldest log entry when the \<^emph>\<open>task object passed in\<close> holds ten entries or
  more.
\<close>

definition updateTask :: "'w state \<Rightarrow> TaskDefinition \<Rightarrow> (TaskDefinition \<Rightarrow> TaskDefinition)
    \<Rightarrow> 'w state \<times> (error + unit)" where
  "updateTask s task u =
     (case getMongoCollection s of
        Inl e \<Rightarrow> (s, Inl e)
      | Inr _ \<Rightarrow>
          (let s1 = s\<lparr>collection := updateOne (\<lambda>d. task_id d = task_id task) u (collection s)\<rparr>
           in if 10 \<le> (case executionLog task of None \<Rightarrow> 0 | Some l \<Rightarrow> length l)
              then (s1\<lparr>collection :=
                          updateOne (\<lambda>d. task_id d = task_id task) pop_first (collection s1)\<rparr>,
                    Inr ())
              else (s1, Inr ())))"

definition insertTask :: "'w state \<Rightarrow> TaskDefinition \<Rightarrow> 'w state \<times> (error + unit)" where
  "insertTask s task =
     (case getMongoCollection s of
        Inl e \<Rightarrow> (s, Inl e)
      | Inr _ \<Rightarrow>
          (case insertOne task (collection s) of
             Inl e \<Rightarrow> (s, Inl e)
           | Inr ds \<Rightarrow> (s\<lparr>collection := ds\<rparr>, Inr ())))"

text \<open>
  \<^verbatim>\<open>receiveTask()\<close> at the instant \<open>now\<close>. The query and the update are built in one
  synchronous block, so its three clock reads are the one instant \<open>now\<close>. An error of
  the store is handed to \<^verbatim>\<open>errorHandler\<close> and \<^verbatim>\<open>undefined\<close> is returned.
\<close>

definition receiveTask :: "'w state \<Rightarrow> Date \<Rightarrow> 'w state \<times> TaskDefinition option" where
  "receiveTask s now =
     (let query = (\<lambda>d. taskWorkers s (task_id d) \<noteq> None
                      \<and> nextScheduledTime d < now
                      \<and> ((case receivedTime d of
                             None \<Rightarrow> False
                           | Some rt \<Rightarrow> rt < now - processingTimeout s)
                         \<or> receivedTime d = None));
          update = (\<lambda>d. d\<lparr>receivedTime := Some now\<rparr>)
      in case getMongoCollection s of
           Inl e \<Rightarrow> (s\<lparr>errorHandler := errorHandler s @ [e]\<rparr>, None)
         | Inr _ \<Rightarrow>
             (case findOneAndUpdate query update (collection s) of
                (ds, result) \<Rightarrow> (s\<lparr>collection := ds\<rparr>, result)))"

text \<open>The \<^verbatim>\<open>signalProgress\<close> closure that \<^verbatim>\<open>processTask\<close> hands to the worker of \<open>task\<close>.\<close>

definition signalProgress :: "TaskDefinition \<Rightarrow> 'w state \<Rightarrow> Date \<Rightarrow> 'w state \<times> (error + unit)" where
  "signalProgress task s now =
     (case getMongoCollection s of
        Inl e \<Rightarrow> (s, Inl e)
      | Inr _ \<Rightarrow>
          (case findOneAndUpdate
                  (\<lambda>d. task_id d = task_id task
                       \<and> (case receivedTime d of
                            None \<Rightarrow> False
                          | Some rt \<Rightarrow> rt > now - processingTimeout s))
                  (\<lambda>d. d\<lparr>receivedTime := Some now\<rparr>)
                  (collection s) of
             (ds, None) \<Rightarrow> (s\<lparr>collection := ds\<rparr>, Inl (Error ''Task expired or no longer exists''))
           | (ds, Some _) \<Rightarrow> (s\<lparr>collection := ds\<rparr>, Inr ())))"

text \<open>
  \<^verbatim>\<open>releaseTask\<close> and \<^verbatim>\<open>completeTask\<close> are not \<^verbatim>\<open>async\<close>: the cron parser may throw
  synchronously (outer \<open>Inl\<close>); otherwise the promise of \<^verbatim>\<open>updateTask\<close> is returned
  (outer \<open>Inr\<close>, holding the state after the writes and how that promise settles).
\<close>

definition releaseTask :: "cronParser \<Rightarrow> 'w state \<Rightarrow> TaskDefinition \<Rightarrow> error \<Rightarrow> Date
    \<Rightarrow> error + ('w state \<times> (error + unit))" where
  "releaseTask cron s task err now =
     (case cron (cronSchedule task) (now + 1000) of
        Inl e \<Rightarrow> Inl e
      | Inr nextTime \<Rightarrow>
          (let rt = (case receivedTime task of None \<Rightarrow> now | Some r \<Rightarrow> r)
           in Inr (updateTask s task
                     (\<lambda>d. push_log (Errored rt (now - rt) now (message err))
                            (d\<lparr>receivedTime := None,
                               nextScheduledTime := nextTime,
                               lastErroredTime := Some now\<rparr>)))))"

definition completeTask :: "cronParser \<Rightarrow> 'w state \<Rightarrow> TaskDefinition \<Rightarrow> string option \<Rightarrow> Date
    \<Rightarrow> error + ('w state \<times> (error + unit))" where
  "completeTask cron s task output now =
     (case cron (cronSchedule task) (now + 1000) of
        Inl e \<Rightarrow> Inl e
      | Inr nextTime \<Rightarrow>
          (let rt = (case receivedTime task of None \<Rightarrow> now | Some r \<Rightarrow> r)
           in Inr (updateTask s task
                     (\<lambda>d. push_log (Completed rt (now - rt) now output)
                            (d\<lparr>receivedTime := None,
                               nextScheduledTime := nextTime,
                               lastCompletedTime := Some now\<rparr>)))))"

text \<open>
  \<^verbatim>\<open>scheduleTask(id, cronSchedule, taskWorker)\<close>, with \<open>now\<close> the instant at which the
  cron parser reads the clock (its default \<^verbatim>\<open>currentDate\<close>). The registration and
  \<^verbatim>\<open>startPolling()\<close> come before the first access to the store.
\<close>

definition scheduleTask :: "cronParser \<Rightarrow> 'w state \<Rightarrow> string \<Rightarrow> string \<Rightarrow> 'w \<Rightarrow> Date
    \<Rightarrow> 'w state \<times> (error + unit)" where
  "scheduleTask cron s tid schedule taskWorker now =
     (let s1 = startPolling (s\<lparr>taskWorkers := (taskWorkers s)(tid \<mapsto> taskWorker)\<rparr>)
      in case findTask s1 tid of
           Inl e \<Rightarrow> (s1, Inl e)
         | Inr task \<Rightarrow>
             (case cron schedule now of
                Inl e \<Rightarrow> (s1, Inl e)
              | Inr nextTime \<Rightarrow>
                  (case task of
                     None \<Rightarrow>
                       insertTask s1
                         \<lparr>task_id = tid, cronSchedule = schedule, nextScheduledTime = nextTime,
                          receivedTime = None, lastErroredTime = None,
                          lastCompletedTime = None, executionLog = None\<rparr>
                   | Some t \<Rightarrow>
                       if cronSchedule t \<noteq> schedule
                          \<or> (receivedTime t = None \<and> nextScheduledTime t > nextTime)
                       then updateTask s1 t
                              (\<lambda>d. d\<lparr>cronSchedule := schedule, nextScheduledTime := nextTime\<rparr>)
                       else (s1, Inr ()))))"

text \<open>
  A worker is code of the caller. \<open>exec w h s now\<close> says how the worker \<open>w\<close> runs when
  it is called at \<open>now\<close> in state \<open>s\<close> with the lease handle \<open>h\<close> (its
  \<^verbatim>\<open>signalProgress\<close> method): the state in which its promise settles, what it settles
  to (a thrown error, or the optional output), and the instant at which it does.
\<close>

type_synonym 'w TaskInstance = "'w state \<Rightarrow> Date \<Rightarrow> 'w state \<times> (error + unit)"

type_synonym 'w exec =
  "'w \<Rightarrow> 'w TaskInstance \<Rightarrow> 'w state \<Rightarrow> Date \<Rightarrow> 'w state \<times> (error + string option) \<times> Date"

definition processTask :: "'w exec \<Rightarrow> 'w state \<Rightarrow> TaskDefinition \<Rightarrow> Date
    \<Rightarrow> 'w state \<times> (error + string option) \<times> Date" where
  "processTask exec s task now =
     (case taskWorkers s (task_id task) of
        None \<Rightarrow>
          (s, Inl (Error (''No worker registered for scheduled task with id: '' @ task_id task)),
           now)
      | Some taskWorker \<Rightarrow> exec taskWorker (signalProgress task) s now)"

text \<open>
  The \<^verbatim>\<open>catch\<close> block of \<^verbatim>\<open>poll\<close>: the error goes to \<^verbatim>\<open>errorHandler\<close>, then
  \<^verbatim>\<open>return this.releaseTask(task, error)\<close>; whatever \<^verbatim>\<open>releaseTask\<close> throws, or
  its promise rejects with, is what the promise of \<^verbatim>\<open>poll\<close> rejects with.
\<close>

definition poll_catch :: "cronParser \<Rightarrow> 'w state \<Rightarrow> TaskDefinition \<Rightarrow> error \<Rightarrow> Date
    \<Rightarrow> 'w state \<times> (error + unit)" where
  "poll_catch cron s task err now =
     (let s1 = s\<lparr>errorHandler := errorHandler s @ [err]\<rparr>
      in case releaseTask cron s1 task err now of
           Inl e \<Rightarrow> (s1, Inl e)
         | Inr r \<Rightarrow> r)"

text \<open>
  \<^verbatim>\<open>poll\<close> from the point where \<^verbatim>\<open>await this.processTask(task)\<close> has settled to
  \<open>outcome\<close>. In the \<^verbatim>\<open>try\<close> block, \<^verbatim>\<open>return this.completeTask(task, output)\<close>
  returns the promise without awaiting it: a synchronous throw of \<^verbatim>\<open>completeTask\<close>
  reaches the \<^verbatim>\<open>catch\<close> block, a rejection of the returned promise does not.
\<close>

definition poll_settle :: "cronParser \<Rightarrow> 'w state \<Rightarrow> TaskDefinition \<Rightarrow> error + string option
    \<Rightarrow> Date \<Rightarrow> 'w state \<times> (error + unit)" where
  "poll_settle cron s task outcome now =
     (case outcome of
        Inr output \<Rightarrow>
          (case completeTask cron s task output now of
             Inl e \<Rightarrow> poll_catch cron s task e now
           | Inr r \<Rightarrow> r)
      | Inl e \<Rightarrow> poll_catch cron s task e now)"

text \<open>
  One whole call of \<^verbatim>\<open>poll\<close>, started at \<open>now\<close>: the final state and how the promise
  it returns settles (\<open>Inl\<close>: it rejects).
\<close>

definition poll :: "cronParser \<Rightarrow> 'w exec \<Rightarrow> 'w state \<Rightarrow> Date \<Rightarrow> 'w state \<times> (error + unit)" where
  "poll cron exec s now =
     (case receiveTask s now of
        (s1, None) \<Rightarrow> (s1, Inr ())
      | (s1, Some task) \<Rightarrow>
          (case processTask exec s1 task now of
             (s2, outcome, now2) \<Rightarrow> poll_settle cron s2 task outcome now2))"

section \<open>The event loop of one process\<close>

text \<open>
  \<^verbatim>\<open>setInterval(this.poll, this.pollingInterval)\<close> calls \<^verbatim>\<open>poll\<close> at every period and
  ignores the promise it returns. A call of \<^verbatim>\<open>poll\<close> that has claimed a task is
  suspended at \<^verbatim>\<open>await this.processTask(task)\<close> until the worker settles; the
  process state pairs the scheduler state with the tasks of the calls suspended there,
  oldest first. \<open>TimerFired now\<close> is a firing of the interval timer,
  \<open>WorkerSettled i outcome now\<close> is the worker of the \<open>i\<close>-th suspended call
  settling.
\<close>

datatype event = TimerFired Date | WorkerSettled nat "error + string option" Date

type_synonym 'w process = "'w state \<times> TaskDefinition list"

fun step :: "cronParser \<Rightarrow> 'w process \<Rightarrow> event \<Rightarrow> 'w process" where
  "step cron (s, inflight) (TimerFired now) =
     (if pollingIntervalId s = None then (s, inflight)
      else case receiveTask s now of
             (s1, None) \<Rightarrow> (s1, inflight)
           | (s1, Some task) \<Rightarrow>
               (case taskWorkers s1 (task_id task) of
                  None \<Rightarrow>
                    (fst (poll_catch cron s1 task
                            (Error (''No worker registered for scheduled task with id: ''
                                    @ task_id task)) now),
                     inflight)
                | Some taskWorker \<Rightarrow> (s1, inflight @ [task])))"
| "step cron (s, inflight) (WorkerSettled i outcome now) =
     (if i < length inflight
      then (fst (poll_settle cron s (inflight ! i) outcome now),
            take i inflight @ drop (Suc i) inflight)
      else (s, inflight))"

definition run :: "cronParser \<Rightarrow> 'w process \<Rightarrow> event list \<Rightarrow> 'w process" where
  "run cron p evs = foldl (step cron) p evs"

section \<open>The claim protocol in the words of the specification\<close>

text \<open>
  The match predicate of the specification (section 4.3): the id is registered locally,
  the next due time is strictly before the current instant, and the lease is absent or
  older than the current instant minus the processing timeout.
\<close>

definition spec_claimable :: "'w state \<Rightarrow> Date \<Rightarrow> TaskDefinition \<Rightarrow> bool" where
  "spec_claimable s now d \<longleftrightarrow>
     taskWorkers s (task_id d) \<noteq> None
     \<and> nextScheduledTime d < now
     \<and> (case receivedTime d of None \<Rightarrow> True | Some rt \<Rightarrow> rt < now - processingTimeout s)"

text \<open>
  The renewal condition of the specification (section 4.4): the record of this id holds
  a lease newer than the current instant minus the processing timeout.
\<close>

definition spec_renewable :: "'w state \<Rightarrow> Date \<Rightarrow> string \<Rightarrow> TaskDefinition \<Rightarrow> bool" where
  "spec_renewable s now tid d \<longleftrightarrow>
     task_id d = tid
     \<and> (case receivedTime d of None \<Rightarrow> False | Some rt \<Rightarrow> now - processingTimeout s < rt)"

section \<open>Sample inputs\<close>

text \<open>
  A small cron adapter to run the model on: every minute, daily at five o'clock (UTC),
  and a parse error for any other expression.
\<close>

definition sample_cron :: cronParser where
  "sample_cron schedule ref =
     (if schedule = ''* * * * *'' then Inr ((ref div 60000 + 1) * 60000)
      else if schedule = ''0 5 * * *''
      then Inr (((ref - 18000000) div 86400000 + 1) * 86400000 + 18000000)
      else Inl (Error ''Invalid cron expression''))"

definition sample_task :: "string \<Rightarrow> Date \<Rightarrow> Date option \<Rightarrow> TaskDefinition" where
  "sample_task tid next lease =
     \<lparr>task_id = tid, cronSchedule = ''* * * * *'', nextScheduledTime = next,
      receivedTime = lease, lastErroredTime = None, lastCompletedTime = None,
      executionLog = None\<rparr>"

text \<open>A fresh scheduler with the default options, a reachable database and the given documents.\<close>

definition sample_state :: "(string \<rightharpoonup> nat) \<Rightarrow> TaskDefinition list \<Rightarrow> nat state" where
  "sample_state workers docs =
     \<lparr>taskWorkers = workers, pollingIntervalId = None, pollingInterval = 1000,
      processingTimeout = 60000, databasePromise = Some (Inr ()), errorHandler = [],
      collection = docs\<rparr>"

text \<open>
  Two registered workers and three documents: an unregistered id, a task under a lease
  taken at 1000, and a task without a lease; both registered tasks are due from 60000.
\<close>

definition sample_claim_state :: "nat state" where
  "sample_claim_state =
     sample_state [''a'' \<mapsto> 1, ''b'' \<mapsto> 2]
       [sample_task ''c'' 0 None, sample_task ''a'' 60000 (Some 1000),
        sample_task ''b'' 60000 None]"

text \<open>A scheduler whose \<^verbatim>\<open>databasePromise\<close> was never set.\<close>

definition sample_unconfigured :: "nat state" where
  "sample_unconfigured = (sample_state Map.empty [])\<lparr>databasePromise := None\<rparr>"

text \<open>
  A store holding one record, declared earlier with the every-minute schedule, without a
  lease and next due at 120000; no worker is registered yet in this process.
\<close>

definition sample_declared :: "nat state" where
  "sample_declared = sample_state Map.empty [sample_task ''a'' 120000 None]"

text \<open>One registered worker \<open>w\<close> and its task, due from 60000 and without a lease.\<close>

definition sample_due :: "nat \<Rightarrow> nat state" where
  "sample_due w = sample_state [''a'' \<mapsto> w] [sample_task ''a'' 60000 None]"

text \<open>The same task as claimed at 61000: the state in which its worker runs.\<close>

definition sample_leased :: "nat state" where
  "sample_leased = sample_state [''a'' \<mapsto> 1] [sample_task ''a'' 60000 (Some 61000)]"

text \<open>
  Workers that run for five seconds while the connection to the database is lost: from
  then on \<^verbatim>\<open>databasePromise()\<close> rejects. Worker 1 returns without output, any other
  worker throws.
\<close>

definition outage_exec :: "nat exec" where
  "outage_exec w h s now =
     (s\<lparr>databasePromise := Some (Inl (Error ''connection lost''))\<rparr>,
      (if w = 1 then Inr None else Inl (Error ''boom'')), now + 5000)"

text \<open>A task with nine entries in its log, due from 60000, in a process whose timer is armed.\<close>

definition sample_log :: "TaskExecutionLogEntry list" where
  "sample_log = map (\<lambda>t. Completed t 0 t None) [1, 2, 3, 4, 5, 6, 7, 8, 9]"

definition sample_nine :: "nat state" where
  "sample_nine =
     (sample_state [''a'' \<mapsto> 1]
        [(sample_task ''a'' 60000 None)\<lparr>executionLog := Some sample_log\<rparr>])
     \<lparr>pollingIntervalId := Some 1000\<rparr>"

text \<open>Two registered tasks, both due from 60000, in a process whose timer is armed.\<close>

definition sample_two_due :: "nat state" where
  "sample_two_due =
     (sample_state [''a'' \<mapsto> 1, ''b'' \<mapsto> 2]
        [sample_task ''a'' 60000 None, sample_task ''b'' 60000 None])
     \<lparr>pollingIntervalId := Some 1000\<rparr>"


section \<open>Properties\<close>

lemma find_updateOne_None:
  "find q ds = None \<Longrightarrow> updateOne q u ds = ds"
  by (induction ds) (auto split: if_splits)

lemma find_updateOne_Some:
  "find q ds = Some d \<Longrightarrow>
     \<exists>i<length ds. ds ! i = d \<and> q d \<and> updateOne q u ds = ds[i := u d]"
proof (induction ds)
  case Nil
  then show ?case by simp
next
  case (Cons x xs)
  show ?case
  proof (cases "q x")
    case True
    with Cons.prems have "x = d" by simp
    with True have "0 < length (x # xs) \<and> (x # xs) ! 0 = d \<and> q d
        \<and> updateOne q u (x # xs) = (x # xs)[0 := u d]"
      by simp
    then show ?thesis by blast
  next
    case False
    with Cons.prems have "find q xs = Some d" by simp
    from Cons.IH [OF this] obtain i where
      i: "i < length xs" "xs ! i = d" "q d" "updateOne q u xs = xs[i := u d]"
      by blast
    with False have "Suc i < length (x # xs) \<and> (x # xs) ! Suc i = d \<and> q d
        \<and> updateOne q u (x # xs) = (x # xs)[Suc i := u d]"
      by simp
    then show ?thesis by blast
  qed
qed

lemma find_None_iff_set: "find q ds = None \<longleftrightarrow> (\<forall>d\<in>set ds. \<not> q d)"
  by (auto simp: find_None_iff)

lemma updateOne_twice:
  "(\<And>d. q (u d) = q d) \<Longrightarrow> updateOne q v (updateOne q u ds) = updateOne q (v \<circ> u) ds"
  by (induction ds) auto

lemma updateTask_connected:
  assumes db: "databasePromise s = Some (Inr ())"
    and keep: "\<And>d. task_id (u d) = task_id d"
  shows "updateTask s task u =
      (s\<lparr>collection :=
           updateOne (\<lambda>d. task_id d = task_id task)
             (if 10 \<le> (case executionLog task of None \<Rightarrow> 0 | Some l \<Rightarrow> length l)
              then pop_first \<circ> u else u)
             (collection s)\<rparr>,
       Inr ())"
proof -
  have "updateOne (\<lambda>d. task_id d = task_id task) pop_first
          (updateOne (\<lambda>d. task_id d = task_id task) u (collection s))
        = updateOne (\<lambda>d. task_id d = task_id task) (pop_first \<circ> u) (collection s)"
    by (rule updateOne_twice) (simp add: keep)
  then show ?thesis
    using db by (simp add: updateTask_def getMongoCollection_def Let_def)
qed

lemma updateTask_disconnected:
  "databasePromise s \<noteq> Some (Inr ()) \<Longrightarrow> \<exists>e. updateTask s task u = (s, Inl e)"
  by (cases "databasePromise s"; cases "the (databasePromise s)")
     (auto simp: updateTask_def getMongoCollection_def)

lemma updateTask_frame:
  "taskWorkers (fst (updateTask s task u)) = taskWorkers s"
  "pollingIntervalId (fst (updateTask s task u)) = pollingIntervalId s"
  by (simp_all add: updateTask_def Let_def split: sum.splits)

lemma insertTask_frame:
  "taskWorkers (fst (insertTask s task)) = taskWorkers s"
  "pollingIntervalId (fst (insertTask s task)) = pollingIntervalId s"
  by (simp_all add: insertTask_def split: sum.splits)

lemma startPolling_armed: "pollingIntervalId (startPolling s) \<noteq> None"
  by (simp add: startPolling_def)

lemma startPolling_taskWorkers: "taskWorkers (startPolling s) = taskWorkers s"
  by (simp add: startPolling_def)

lemma startPolling_frame:
  "databasePromise (startPolling s) = databasePromise s"
  "collection (startPolling s) = collection s"
  by (simp_all add: startPolling_def)

lemma find_by_id_updateOne:
  assumes "find (\<lambda>d. task_id d = tid) ds = Some t" and "\<And>d. task_id (u d) = task_id d"
  shows "find (\<lambda>d. task_id d = tid) (updateOne (\<lambda>d. task_id d = tid) u ds) = Some (u t)"
  using assms by (induction ds) (auto split: if_splits)

lemma find_by_id: "find (\<lambda>d. task_id d = tid) ds = Some t \<Longrightarrow> task_id t = tid"
  by (induction ds) (auto split: if_splits)

lemma completeTask_connected:
  assumes db: "databasePromise s = Some (Inr ())"
    and cron: "cron (cronSchedule task) (now + 1000) = Inr nextTime"
  shows "completeTask cron s task output now =
     Inr (s\<lparr>collection :=
              updateOne (\<lambda>d. task_id d = task_id task)
                (\<lambda>d. (if 10 \<le> (case executionLog task of None \<Rightarrow> 0 | Some l \<Rightarrow> length l)
                       then pop_first else (\<lambda>d. d))
                      (push_log
                         (Completed (case receivedTime task of None \<Rightarrow> now | Some r \<Rightarrow> r)
                            (now - (case receivedTime task of None \<Rightarrow> now | Some r \<Rightarrow> r))
                            now output)
                         (d\<lparr>receivedTime := None, nextScheduledTime := nextTime,
                            lastCompletedTime := Some now\<rparr>)))
                (collection s)\<rparr>,
          Inr ())"
  unfolding completeTask_def Let_def
  by (simp add: cron updateTask_connected [OF db] push_log_def o_def)

lemma releaseTask_connected:
  assumes db: "databasePromise s = Some (Inr ())"
    and cron: "cron (cronSchedule task) (now + 1000) = Inr nextTime"
  shows "releaseTask cron s task err now =
     Inr (s\<lparr>collection :=
              updateOne (\<lambda>d. task_id d = task_id task)
                (\<lambda>d. (if 10 \<le> (case executionLog task of None \<Rightarrow> 0 | Some l \<Rightarrow> length l)
                       then pop_first else (\<lambda>d. d))
                      (push_log
                         (Errored (case receivedTime task of None \<Rightarrow> now | Some r \<Rightarrow> r)
                            (now - (case receivedTime task of None \<Rightarrow> now | Some r \<Rightarrow> r))
                            now (message err))
                         (d\<lparr>receivedTime := None, nextScheduledTime := nextTime,
                            lastErroredTime := Some now\<rparr>)))
                (collection s)\<rparr>,
          Inr ())"
  unfolding releaseTask_def Let_def
  by (simp add: cron updateTask_connected [OF db] push_log_def o_def)


text \<open>The sample adapter answers with an instant strictly after the reference instant.\<close>

lemma sample_cron_after: "sample_cron schedule ref = Inr t \<Longrightarrow> ref < t"
proof -
  have step: "x < (x div m + 1) * m" if "0 < m" for x m :: int
  proof -
    have "x mod m < m"
      using that by simp
    moreover have "x div m * m + x mod m = x"
      by simp
    moreover have "(x div m + 1) * m = x div m * m + m"
      by (simp add: distrib_right)
    ultimately show ?thesis
      by linarith
  qed
  have a: "ref < (ref div 60000 + 1) * 60000"
    by (rule step) simp
  have "ref - 18000000 < ((ref - 18000000) div 86400000 + 1) * 86400000"
    by (rule step) simp
  then have b: "ref < ((ref - 18000000) div 86400000 + 1) * 86400000 + 18000000"
    by linarith
  assume "sample_cron schedule ref = Inr t"
  with a b show ?thesis
    by (auto simp: sample_cron_def split: if_splits)
qed

text \<open>
  When the database cannot be reached at the settlement, the promise of \<^verbatim>\<open>poll\<close> rejects
  with the error of the store, which \<^verbatim>\<open>errorHandler\<close> never receives.
\<close>

lemma poll_settle_store_failure:
  assumes down: "databasePromise s = Some (Inl e)"
    and cron: "cron (cronSchedule task) (now + 1000) = Inr nextTime"
  shows "poll_settle cron s task (Inr output) now = (s, Inl e)"
    and "poll_settle cron s task (Inl err) now = (s\<lparr>errorHandler := errorHandler s @ [err]\<rparr>, Inl e)"
  using down cron
  by (simp_all add: poll_settle_def poll_catch_def completeTask_def releaseTask_def
      updateTask_def getMongoCollection_def Let_def)


section \<open>C1: the atomic claim\<close>

text \<open>
  C1. With the database reachable, \<^verbatim>\<open>receiveTask\<close> at the instant \<open>now\<close> returns
  nothing exactly when no document of the collection satisfies the match predicate of
  the specification (registered id, next scheduled time strictly before \<open>now\<close>, lease
  absent or older than \<open>now\<close> minus the processing timeout), and then nothing is
  written. Otherwise it returns a document that satisfies the predicate, with
  \<open>receivedTime\<close> set to \<open>now\<close>: the record after the mutation, which replaces the
  matched one in the collection while every other document stays as it was.
\<close>

theorem receiveTask_claims:
  assumes db: "databasePromise s = Some (Inr ())"
  shows "case receiveTask s now of
           (s', None) \<Rightarrow>
             s' = s \<and> (\<forall>d\<in>set (collection s). \<not> spec_claimable s now d)
         | (s', Some t) \<Rightarrow>
             (\<exists>i<length (collection s).
                spec_claimable s now (collection s ! i)
                \<and> t = (collection s ! i)\<lparr>receivedTime := Some now\<rparr>
                \<and> s' = s\<lparr>collection := (collection s)[i := t]\<rparr>)"
proof -
  define q where "q = (\<lambda>d::TaskDefinition. taskWorkers s (task_id d) \<noteq> None
                      \<and> nextScheduledTime d < now
                      \<and> ((case receivedTime d of
                             None \<Rightarrow> False
                           | Some rt \<Rightarrow> rt < now - processingTimeout s)
                         \<or> receivedTime d = None))"
  define u where "u = (\<lambda>d::TaskDefinition. d\<lparr>receivedTime := Some now\<rparr>)"
  have q_spec: "q d = spec_claimable s now d" for d
    by (auto simp: q_def spec_claimable_def split: option.splits)
  have rt: "receiveTask s now =
      (case findOneAndUpdate q u (collection s) of (ds, r) \<Rightarrow> (s\<lparr>collection := ds\<rparr>, r))"
    using db by (simp add: receiveTask_def getMongoCollection_def q_def u_def)
  show ?thesis
  proof (cases "find q (collection s)")
    case None
    then have "\<forall>d\<in>set (collection s). \<not> spec_claimable s now d"
      by (simp add: find_None_iff_set q_spec)
    with None show ?thesis
      by (simp add: rt findOneAndUpdate_def)
  next
    case (Some d)
    from find_updateOne_Some [OF Some, of u] obtain i where
      "i < length (collection s)" "collection s ! i = d" "q d"
      "updateOne q u (collection s) = (collection s)[i := u d]"
      by blast
    with Some show ?thesis
      by (auto simp: rt findOneAndUpdate_def q_spec u_def)
  qed
qed

theorem receiveTask_claims_witness:
  "databasePromise sample_claim_state = Some (Inr ())
   \<and> receiveTask sample_claim_state 61000 =
       (sample_claim_state\<lparr>collection :=
          [sample_task ''c'' 0 None, sample_task ''a'' 60000 (Some 1000),
           sample_task ''b'' 60000 (Some 61000)]\<rparr>,
        Some (sample_task ''b'' 60000 (Some 61000)))
   \<and> receiveTask sample_claim_state 60000 = (sample_claim_state, None)"
  using receiveTask_claims [of sample_claim_state 61000]
    receiveTask_claims [of sample_claim_state 60000]
  by (simp add: sample_claim_state_def sample_state_def sample_task_def receiveTask_def
      getMongoCollection_def findOneAndUpdate_def)

section \<open>C7, C2, C8, C10: declaring a task\<close>

text \<open>
  C7. With the database reachable and a schedule the cron parser accepts, declaring an
  id that no document of the collection carries inserts exactly one document: the id,
  the schedule, \<open>nextScheduledTime\<close> equal to what the cron parser returns for the
  schedule at the declaration instant (its next fire time after that instant), no
  \<open>receivedTime\<close> and no \<open>executionLog\<close>. Every other document stays as it was, the
  worker is registered and the timer armed.
\<close>

theorem scheduleTask_inserts:
  assumes db: "databasePromise s = Some (Inr ())"
    and fresh: "tid \<notin> task_id ` set (collection s)"
    and cron: "cron schedule now = Inr nextTime"
  shows "scheduleTask cron s tid schedule w now =
     ((startPolling (s\<lparr>taskWorkers := (taskWorkers s)(tid \<mapsto> w)\<rparr>))
        \<lparr>collection := collection s @
           [\<lparr>task_id = tid, cronSchedule = schedule, nextScheduledTime = nextTime,
             receivedTime = None, lastErroredTime = None, lastCompletedTime = None,
             executionLog = None\<rparr>]\<rparr>,
      Inr ())"
proof -
  from fresh have none: "find (\<lambda>d. task_id d = tid) (collection s) = None"
    by (auto simp: find_None_iff_set)
  show ?thesis
    unfolding scheduleTask_def Let_def
    by (simp add: findTask_def getMongoCollection_def insertTask_def insertOne_def
        startPolling_frame db none cron)
qed

theorem scheduleTask_inserts_witness:
  "databasePromise sample_declared = Some (Inr ())
   \<and> ''daily-job'' \<notin> task_id ` set (collection sample_declared)
   \<and> sample_cron ''0 5 * * *'' 1738368000000 = Inr 1738386000000
   \<and> scheduleTask sample_cron sample_declared ''daily-job'' ''0 5 * * *'' 7 1738368000000 =
       (sample_declared
          \<lparr>taskWorkers := [''daily-job'' \<mapsto> 7], pollingIntervalId := Some 1000,
           collection :=
             [sample_task ''a'' 120000 None,
              \<lparr>task_id = ''daily-job'', cronSchedule = ''0 5 * * *'',
               nextScheduledTime = 1738386000000,
               receivedTime = None, lastErroredTime = None, lastCompletedTime = None,
               executionLog = None\<rparr>]\<rparr>,
        Inr ())"
  using scheduleTask_inserts [of sample_declared "''daily-job''" sample_cron
      "''0 5 * * *''" 1738368000000 1738386000000 7]
  by (simp add: sample_declared_def sample_state_def sample_task_def sample_cron_def
      startPolling_def)

text \<open>
  C2 as stated fails: a record without a lease whose stored next time (120000) is later
  than the freshly computed one (60000, declared again at 59600 with the identical
  schedule) has its \<open>nextScheduledTime\<close> overwritten.
\<close>

theorem scheduleTask_same_schedule_counterexample:
  "find (\<lambda>d. task_id d = ''a'') (collection sample_declared) = Some (sample_task ''a'' 120000 None)
   \<and> cronSchedule (sample_task ''a'' 120000 None) = ''* * * * *''
   \<and> scheduleTask sample_cron sample_declared ''a'' ''* * * * *'' 7 59600 =
       (sample_declared\<lparr>taskWorkers := [''a'' \<mapsto> 7], pollingIntervalId := Some 1000,
           collection := [sample_task ''a'' 60000 None]\<rparr>, Inr ())
   \<and> nextScheduledTime (sample_task ''a'' 60000 None)
       \<noteq> nextScheduledTime (sample_task ''a'' 120000 None)"
  by (simp add: sample_declared_def sample_state_def sample_task_def sample_cron_def scheduleTask_def
      findTask_def getMongoCollection_def updateTask_def startPolling_def)

text \<open>
  C2, amended. With the database reachable, re-declaring an existing id with the schedule
  string that is stored succeeds, and it leaves the whole collection unchanged unless the
  stored record holds no lease and its stored \<open>nextScheduledTime\<close> is later than the
  freshly computed next time; in that one case the stored \<open>nextScheduledTime\<close> becomes
  the freshly computed time and the schedule string stays the same.
\<close>

theorem scheduleTask_same_schedule:
  assumes db: "databasePromise s = Some (Inr ())"
    and found: "find (\<lambda>d. task_id d = tid) (collection s) = Some t"
    and same: "cronSchedule t = schedule"
    and cron: "cron schedule now = Inr nextTime"
  shows "snd (scheduleTask cron s tid schedule w now) = Inr ()
     \<and> (if receivedTime t = None \<and> nextTime < nextScheduledTime t
        then map_option (\<lambda>d. (cronSchedule d, nextScheduledTime d))
               (find (\<lambda>d. task_id d = tid)
                  (collection (fst (scheduleTask cron s tid schedule w now))))
             = Some (schedule, nextTime)
        else collection (fst (scheduleTask cron s tid schedule w now)) = collection s)"
proof -
  define s1 where "s1 = startPolling (s\<lparr>taskWorkers := (taskWorkers s)(tid \<mapsto> w)\<rparr>)"
  define u where "u = (\<lambda>d::TaskDefinition. d\<lparr>cronSchedule := schedule, nextScheduledTime := nextTime\<rparr>)"
  have db1: "databasePromise s1 = Some (Inr ())" and coll1: "collection s1 = collection s"
    by (simp_all add: s1_def startPolling_frame db)
  have tid: "task_id t = tid"
    using found by (rule find_by_id)
  have keep: "task_id (u d) = task_id d" for d
    by (simp add: u_def)
  have keep': "task_id ((pop_first \<circ> u) d) = task_id d" for d
    by (simp add: u_def pop_first_def)
  show ?thesis
  proof (cases "receivedTime t = None \<and> nextTime < nextScheduledTime t")
    case True
    then have sched: "scheduleTask cron s tid schedule w now = updateTask s1 t u"
      unfolding scheduleTask_def Let_def s1_def [symmetric] u_def
      by (simp add: findTask_def getMongoCollection_def db1 coll1 found cron same)
    show ?thesis
      unfolding sched updateTask_connected [OF db1 keep]
      using True find_by_id_updateOne [OF found keep] find_by_id_updateOne [OF found keep']
      by (simp add: coll1 tid u_def o_def pop_first_def)
  next
    case False
    then have "scheduleTask cron s tid schedule w now = (s1, Inr ())"
      unfolding scheduleTask_def Let_def s1_def [symmetric]
      by (auto simp: findTask_def getMongoCollection_def db1 coll1 found cron same)
    with False show ?thesis
      by (auto simp: coll1)
  qed
qed

theorem scheduleTask_same_schedule_witness:
  "databasePromise sample_declared = Some (Inr ())
   \<and> find (\<lambda>d. task_id d = ''a'') (collection sample_declared) = Some (sample_task ''a'' 120000 None)
   \<and> cronSchedule (sample_task ''a'' 120000 None) = ''* * * * *''
   \<and> sample_cron ''* * * * *'' 59600 = Inr 60000
   \<and> sample_cron ''* * * * *'' 60000 = Inr 120000
   \<and> collection (fst (scheduleTask sample_cron sample_declared ''a'' ''* * * * *'' 7 59600))
       = [sample_task ''a'' 60000 None]
   \<and> collection (fst (scheduleTask sample_cron sample_declared ''a'' ''* * * * *'' 7 60000)) = collection sample_declared"
  using scheduleTask_same_schedule [of sample_declared "''a''" "sample_task ''a'' 120000 None"
      "''* * * * *''" sample_cron 59600 60000 7]
    scheduleTask_same_schedule [of sample_declared "''a''" "sample_task ''a'' 120000 None"
      "''* * * * *''" sample_cron 60000 120000 7]
  by (simp add: sample_declared_def sample_state_def sample_task_def sample_cron_def scheduleTask_def
      findTask_def getMongoCollection_def updateTask_def startPolling_def)


text \<open>
  C8. With the database reachable and a new schedule the cron parser accepts,
  re-declaring an existing id with a schedule string different from the stored one
  succeeds and stores the new schedule and the next time computed from it at the
  declaration instant, whatever the stored next time and lease were. The other fields
  of the record stay, except that \<^verbatim>\<open>updateTask\<close> also drops the oldest log entry when
  the record read holds ten entries or more.
\<close>

theorem scheduleTask_new_schedule:
  assumes db: "databasePromise s = Some (Inr ())"
    and found: "find (\<lambda>d. task_id d = tid) (collection s) = Some t"
    and differs: "cronSchedule t \<noteq> schedule"
    and cron: "cron schedule now = Inr nextTime"
  shows "snd (scheduleTask cron s tid schedule w now) = Inr ()
     \<and> find (\<lambda>d. task_id d = tid) (collection (fst (scheduleTask cron s tid schedule w now)))
        = Some ((if 10 \<le> (case executionLog t of None \<Rightarrow> 0 | Some l \<Rightarrow> length l)
                 then pop_first else (\<lambda>d. d))
                (t\<lparr>cronSchedule := schedule, nextScheduledTime := nextTime\<rparr>))"
proof -
  define s1 where "s1 = startPolling (s\<lparr>taskWorkers := (taskWorkers s)(tid \<mapsto> w)\<rparr>)"
  define u where "u = (\<lambda>d::TaskDefinition. d\<lparr>cronSchedule := schedule, nextScheduledTime := nextTime\<rparr>)"
  have db1: "databasePromise s1 = Some (Inr ())" and coll1: "collection s1 = collection s"
    by (simp_all add: s1_def startPolling_frame db)
  have tid: "task_id t = tid"
    using found by (rule find_by_id)
  have keep: "task_id (u d) = task_id d" for d
    by (simp add: u_def)
  have keep': "task_id ((pop_first \<circ> u) d) = task_id d" for d
    by (simp add: u_def pop_first_def)
  have sched: "scheduleTask cron s tid schedule w now = updateTask s1 t u"
    unfolding scheduleTask_def Let_def s1_def [symmetric] u_def
    by (simp add: findTask_def getMongoCollection_def db1 coll1 found cron differs)
  show ?thesis
    unfolding sched updateTask_connected [OF db1 keep]
    using find_by_id_updateOne [OF found keep] find_by_id_updateOne [OF found keep']
    by (simp add: coll1 tid u_def o_def)
qed

theorem scheduleTask_new_schedule_witness:
  "databasePromise sample_declared = Some (Inr ())
   \<and> find (\<lambda>d. task_id d = ''a'') (collection sample_declared) = Some (sample_task ''a'' 120000 None)
   \<and> cronSchedule (sample_task ''a'' 120000 None) \<noteq> ''0 5 * * *''
   \<and> sample_cron ''0 5 * * *'' 59600 = Inr 18000000
   \<and> collection (fst (scheduleTask sample_cron sample_declared ''a'' ''0 5 * * *'' 7 59600))
      = [(sample_task ''a'' 18000000 None)\<lparr>cronSchedule := ''0 5 * * *''\<rparr>]"
  using scheduleTask_new_schedule [of sample_declared "''a''" "sample_task ''a'' 120000 None"
      "''0 5 * * *''" sample_cron 59600 18000000 7]
  by (simp add: sample_declared_def sample_state_def sample_task_def sample_cron_def scheduleTask_def
      findTask_def getMongoCollection_def updateTask_def startPolling_def)


text \<open>
  C10. Whatever \<^verbatim>\<open>scheduleTask\<close> returns, in the resulting state the worker is
  registered under the id and the polling timer is armed: both happen before the store
  is first accessed and nothing undoes them. In particular, when no database is
  configured the call rejects with that error, and the state is the initial one with
  the worker registered and the timer armed.
\<close>

theorem scheduleTask_registers_first:
  "taskWorkers (fst (scheduleTask cron s tid schedule w now)) tid = Some w
   \<and> pollingIntervalId (fst (scheduleTask cron s tid schedule w now)) \<noteq> None
   \<and> (databasePromise s = None \<longrightarrow>
        scheduleTask cron s tid schedule w now =
          (startPolling (s\<lparr>taskWorkers := (taskWorkers s)(tid \<mapsto> w)\<rparr>),
           Inl (Error ''No database configured'')))"
proof -
  define s1 where "s1 = startPolling (s\<lparr>taskWorkers := (taskWorkers s)(tid \<mapsto> w)\<rparr>)"
  have w1: "taskWorkers s1 tid = Some w"
    by (simp add: s1_def startPolling_taskWorkers)
  have p1: "pollingIntervalId s1 \<noteq> None"
    by (simp add: s1_def startPolling_armed)
  have db1: "databasePromise s1 = databasePromise s"
    by (simp add: s1_def startPolling_def)
  have "taskWorkers (fst (scheduleTask cron s tid schedule w now)) = taskWorkers s1
      \<and> pollingIntervalId (fst (scheduleTask cron s tid schedule w now)) = pollingIntervalId s1"
    unfolding scheduleTask_def Let_def s1_def [symmetric]
    by (simp add: updateTask_frame insertTask_frame split: sum.splits option.splits)
  moreover have "databasePromise s = None \<longrightarrow>
        scheduleTask cron s tid schedule w now = (s1, Inl (Error ''No database configured''))"
    unfolding scheduleTask_def Let_def s1_def [symmetric]
    by (simp add: findTask_def getMongoCollection_def db1)
  ultimately show ?thesis
    using w1 p1 by (simp add: s1_def)
qed

theorem scheduleTask_registers_first_witness:
  "databasePromise sample_unconfigured = None
   \<and> scheduleTask sample_cron sample_unconfigured ''a'' ''* * * * *'' 7 0 =
       (sample_unconfigured\<lparr>taskWorkers := [''a'' \<mapsto> 7], pollingIntervalId := Some 1000\<rparr>,
        Inl (Error ''No database configured''))"
  using scheduleTask_registers_first [of sample_cron sample_unconfigured "''a''" "''* * * * *''" 7 0]
  by (simp add: sample_unconfigured_def sample_state_def startPolling_def)


section \<open>C4, C5: settling a claimed task\<close>

text \<open>
  C4. With the database reachable, a record stored under the id of the claimed task and
  a schedule the cron parser accepts, both \<^verbatim>\<open>completeTask\<close> and \<^verbatim>\<open>releaseTask\<close>
  succeed and leave the stored record with \<open>receivedTime\<close> cleared,
  \<open>nextScheduledTime\<close> equal to the cron parser's answer for the task's schedule at
  \<open>now + 1000\<close>, and one entry appended to its log, after which the oldest entry is
  dropped when the claimed task object held ten entries or more. Completion sets
  \<open>lastCompletedTime\<close> to \<open>now\<close> and its entry is a \<open>Completed\<close> one carrying the
  worker's output; release sets \<open>lastErroredTime\<close> to \<open>now\<close> and its entry is an
  \<open>Errored\<close> one carrying the error's message. Both entries carry the lease instant
  of the claimed task object and the time elapsed since.
\<close>

theorem settlement_transitions:
  assumes db: "databasePromise s = Some (Inr ())"
    and found: "find (\<lambda>d. task_id d = task_id task) (collection s) = Some d"
    and cron: "cron (cronSchedule task) (now + 1000) = Inr nextTime"
  shows "let rt = (case receivedTime task of None \<Rightarrow> now | Some r \<Rightarrow> r);
             log = (case executionLog d of None \<Rightarrow> [] | Some l \<Rightarrow> l);
             evict = (\<lambda>l. if 10 \<le> (case executionLog task of None \<Rightarrow> 0 | Some l \<Rightarrow> length l)
                          then tl l else l)
         in (case completeTask cron s task output now of
               Inl e \<Rightarrow> False
             | Inr (s', r) \<Rightarrow>
                 r = Inr ()
                 \<and> find (\<lambda>d. task_id d = task_id task) (collection s') =
                     Some (d\<lparr>receivedTime := None, nextScheduledTime := nextTime,
                             lastCompletedTime := Some now,
                             executionLog :=
                               Some (evict (log @ [Completed rt (now - rt) now output]))\<rparr>))
          \<and> (case releaseTask cron s task err now of
               Inl e \<Rightarrow> False
             | Inr (s', r) \<Rightarrow>
                 r = Inr ()
                 \<and> find (\<lambda>d. task_id d = task_id task) (collection s') =
                     Some (d\<lparr>receivedTime := None, nextScheduledTime := nextTime,
                             lastErroredTime := Some now,
                             executionLog :=
                               Some (evict (log @ [Errored rt (now - rt) now (message err)]))\<rparr>))"
proof -
  have keep: "task_id ((if b then pop_first else (\<lambda>d. d)) (push_log e (d\<lparr>receivedTime := None, nextScheduledTime := nextTime, lastCompletedTime := Some now\<rparr>))) = task_id d"
    for b e and d :: TaskDefinition
    by (simp add: pop_first_def push_log_def)
  have keep': "task_id ((if b then pop_first else (\<lambda>d. d)) (push_log e (d\<lparr>receivedTime := None, nextScheduledTime := nextTime, lastErroredTime := Some now\<rparr>))) = task_id d"
    for b e and d :: TaskDefinition
    by (simp add: pop_first_def push_log_def)
  show ?thesis
    unfolding completeTask_connected [where cron = cron and task = task, OF db cron]
      releaseTask_connected [where cron = cron and task = task, OF db cron] Let_def
    using find_by_id_updateOne [OF found keep] find_by_id_updateOne [OF found keep']
    by (simp add: pop_first_def push_log_def)
qed

theorem settlement_transitions_witness:
  "databasePromise sample_leased = Some (Inr ())
   \<and> find (\<lambda>d. task_id d = task_id (sample_task ''a'' 60000 (Some 61000))) (collection sample_leased)
       = Some (sample_task ''a'' 60000 (Some 61000))
   \<and> sample_cron (cronSchedule (sample_task ''a'' 60000 (Some 61000))) (65000 + 1000) = Inr 120000
   \<and> completeTask sample_cron sample_leased (sample_task ''a'' 60000 (Some 61000)) (Some ''done'') 65000
       = Inr (sample_leased\<lparr>collection :=
                  [(sample_task ''a'' 120000 None)
                     \<lparr>lastCompletedTime := Some 65000,
                      executionLog := Some [Completed 61000 4000 65000 (Some ''done'')]\<rparr>]\<rparr>,
              Inr ())
   \<and> releaseTask sample_cron sample_leased (sample_task ''a'' 60000 (Some 61000)) (Error ''boom'') 65000
       = Inr (sample_leased\<lparr>collection :=
                  [(sample_task ''a'' 120000 None)
                     \<lparr>lastErroredTime := Some 65000,
                      executionLog := Some [Errored 61000 4000 65000 ''boom'']\<rparr>]\<rparr>,
              Inr ())"
  using settlement_transitions [of sample_leased "sample_task ''a'' 60000 (Some 61000)"
      "sample_task ''a'' 60000 (Some 61000)" sample_cron 65000 120000 "Some ''done''"
      "Error ''boom''"]
  by (simp add: sample_leased_def sample_state_def sample_task_def sample_cron_def completeTask_def
      releaseTask_def updateTask_def getMongoCollection_def push_log_def)


text \<open>
  The cap of ten holds for a settlement whose task object is current: when the log of
  the claimed task object is the stored log and that log holds at most ten entries,
  the stored log holds at most ten entries after \<^verbatim>\<open>completeTask\<close>, and the entry
  dropped from a full log is its oldest.
\<close>

lemma settle_log_capped_when_snapshot_current:
  assumes db: "databasePromise s = Some (Inr ())"
    and found: "find (\<lambda>d. task_id d = task_id task) (collection s) = Some d"
    and cron: "cron (cronSchedule task) (now + 1000) = Inr nextTime"
    and current: "executionLog task = executionLog d"
    and bound: "length (case executionLog d of None \<Rightarrow> [] | Some l \<Rightarrow> l) \<le> 10"
  shows "case completeTask cron s task output now of
           Inl e \<Rightarrow> False
         | Inr (s', r) \<Rightarrow>
             (case find (\<lambda>d. task_id d = task_id task) (collection s') of
                None \<Rightarrow> False
              | Some d' \<Rightarrow>
                  (case executionLog d' of
                     None \<Rightarrow> False
                   | Some l' \<Rightarrow>
                       length l' \<le> 10
                       \<and> l' = (if length (case executionLog d of None \<Rightarrow> [] | Some l \<Rightarrow> l) = 10
                               then tl (case executionLog d of None \<Rightarrow> [] | Some l \<Rightarrow> l)
                               else (case executionLog d of None \<Rightarrow> [] | Some l \<Rightarrow> l))
                              @ [Completed (case receivedTime task of None \<Rightarrow> now | Some r \<Rightarrow> r)
                                   (now - (case receivedTime task of None \<Rightarrow> now | Some r \<Rightarrow> r))
                                   now output]))"
proof -
  define u where "u = (\<lambda>d::TaskDefinition.
      (if 10 \<le> (case executionLog task of None \<Rightarrow> 0 | Some l \<Rightarrow> length l)
       then pop_first else (\<lambda>d. d))
      (push_log
         (Completed (case receivedTime task of None \<Rightarrow> now | Some r \<Rightarrow> r)
            (now - (case receivedTime task of None \<Rightarrow> now | Some r \<Rightarrow> r))
            now output)
         (d\<lparr>receivedTime := None, nextScheduledTime := nextTime,
            lastCompletedTime := Some now\<rparr>)))"
  have keep: "task_id (u d) = task_id d" for d
    by (simp add: u_def pop_first_def push_log_def)
  have "completeTask cron s task output now =
      Inr (s\<lparr>collection := updateOne (\<lambda>d. task_id d = task_id task) u (collection s)\<rparr>, Inr ())"
    unfolding u_def
    by (rule completeTask_connected [where cron = cron and task = task, OF db cron])
  moreover have "executionLog (u d) =
      Some ((if length (case executionLog d of None \<Rightarrow> [] | Some l \<Rightarrow> l) = 10
             then tl (case executionLog d of None \<Rightarrow> [] | Some l \<Rightarrow> l)
             else (case executionLog d of None \<Rightarrow> [] | Some l \<Rightarrow> l))
            @ [Completed (case receivedTime task of None \<Rightarrow> now | Some r \<Rightarrow> r)
                 (now - (case receivedTime task of None \<Rightarrow> now | Some r \<Rightarrow> r))
                 now output])"
    using current bound
    by (cases "executionLog d")
       (auto simp: u_def pop_first_def push_log_def tl_append split: list.splits)
  moreover have "length (tl l @ [e]) \<le> 10" if "length l = 10" for l :: "TaskExecutionLogEntry list" and e
    using that by simp
  ultimately show ?thesis
    using find_by_id_updateOne [OF found keep] bound
    by (auto split: option.splits)
qed

text \<open>
  C5 on the code. \<^verbatim>\<open>updateTask\<close> decides the eviction from the log of the task object
  it is handed, read when the task was claimed, not from the stored log. A record with
  nine entries is claimed at 61000; its worker runs past the processing timeout, so the
  firing at 121001 claims the record again, with the same nine entries. Both workers
  then return: each settlement appends an entry, neither evicts, and the stored log
  holds eleven entries.
\<close>

theorem log_exceeds_cap:
  "executionLog (hd (collection (fst
      (run sample_cron (sample_nine, [])
         [TimerFired 61000, TimerFired 121001,
          WorkerSettled 0 (Inr None) 130000, WorkerSettled 0 (Inr None) 131000]))))
     = Some (sample_log @ [Completed 61000 69000 130000 None,
                           Completed 121001 9999 131000 None])
   \<and> length (sample_log @ [Completed 61000 69000 130000 None,
                           Completed 121001 9999 131000 None]) = 11"
  by (simp add: run_def sample_nine_def sample_two_due_def sample_log_def sample_state_def
      sample_task_def sample_cron_def receiveTask_def getMongoCollection_def
      findOneAndUpdate_def poll_settle_def poll_catch_def completeTask_def releaseTask_def
      updateTask_def push_log_def pop_first_def)

section \<open>C6: renewing the lease\<close>

text \<open>
  C6. With the database reachable, \<^verbatim>\<open>signalProgress\<close> at the instant \<open>now\<close> either
  succeeds, and then a document with the id of the task and a \<open>receivedTime\<close> newer
  than \<open>now\<close> minus the processing timeout has had its \<open>receivedTime\<close> set to
  \<open>now\<close>, nothing else being written; or it fails, and then the error is the explicit
  \<^verbatim>\<open>Task expired or no longer exists\<close>, no document satisfies that condition, and the
  state is unchanged: the failure writes nothing to the store.
\<close>

theorem signalProgress_renews:
  assumes db: "databasePromise s = Some (Inr ())"
  shows "case signalProgress task s now of
           (s', Inl e) \<Rightarrow>
             e = Error ''Task expired or no longer exists'' \<and> s' = s
             \<and> (\<forall>d\<in>set (collection s). \<not> spec_renewable s now (task_id task) d)
         | (s', Inr _) \<Rightarrow>
             (\<exists>i<length (collection s).
                spec_renewable s now (task_id task) (collection s ! i)
                \<and> s' = s\<lparr>collection :=
                            (collection s)[i := (collection s ! i)\<lparr>receivedTime := Some now\<rparr>]\<rparr>)"
proof -
  define q where "q = (\<lambda>d::TaskDefinition. task_id d = task_id task
                       \<and> (case receivedTime d of
                            None \<Rightarrow> False
                          | Some rt \<Rightarrow> rt > now - processingTimeout s))"
  define u where "u = (\<lambda>d::TaskDefinition. d\<lparr>receivedTime := Some now\<rparr>)"
  have q_spec: "q d = spec_renewable s now (task_id task) d" for d
    by (auto simp: q_def spec_renewable_def split: option.splits)
  have sp: "signalProgress task s now =
      (case findOneAndUpdate q u (collection s) of
         (ds, None) \<Rightarrow> (s\<lparr>collection := ds\<rparr>, Inl (Error ''Task expired or no longer exists''))
       | (ds, Some _) \<Rightarrow> (s\<lparr>collection := ds\<rparr>, Inr ()))"
    using db by (simp add: signalProgress_def getMongoCollection_def q_def u_def)
  show ?thesis
  proof (cases "find q (collection s)")
    case None
    then have "\<forall>d\<in>set (collection s). \<not> spec_renewable s now (task_id task) d"
      by (simp add: find_None_iff_set q_spec)
    with None show ?thesis
      by (simp add: sp findOneAndUpdate_def)
  next
    case (Some d)
    from find_updateOne_Some [OF Some, of u] obtain i where
      "i < length (collection s)" "collection s ! i = d" "q d"
      "updateOne q u (collection s) = (collection s)[i := u d]"
      by blast
    with Some show ?thesis
      by (auto simp: sp findOneAndUpdate_def q_spec u_def)
  qed
qed

theorem signalProgress_renews_witness:
  "databasePromise sample_leased = Some (Inr ())
   \<and> signalProgress (sample_task ''a'' 60000 (Some 61000)) sample_leased 91000
       = (sample_leased\<lparr>collection := [sample_task ''a'' 60000 (Some 91000)]\<rparr>, Inr ())
   \<and> signalProgress (sample_task ''a'' 60000 (Some 61000)) sample_leased 121000
       = (sample_leased, Inl (Error ''Task expired or no longer exists''))"
  using signalProgress_renews
      [where s = sample_leased and task = "sample_task ''a'' 60000 (Some 61000)" and now = 91000]
    signalProgress_renews
      [where s = sample_leased and task = "sample_task ''a'' 60000 (Some 61000)" and now = 121000]
  by (simp add: sample_leased_def sample_state_def sample_task_def signalProgress_def
      getMongoCollection_def findOneAndUpdate_def)


section \<open>C3, C9: the polling loop\<close>

text \<open>
  C3 on the code. A due task is claimed at 61000 and, while its worker runs, the
  connection to the database is lost, so the write of the settlement fails. When the
  worker returned, the promise of \<^verbatim>\<open>poll\<close> rejects with the error of the store and
  \<^verbatim>\<open>errorHandler\<close> has not been called at all; when the worker threw,
  \<^verbatim>\<open>errorHandler\<close> has been called with the worker's error only and the promise of
  \<^verbatim>\<open>poll\<close> rejects with the error of the store. In both cases the error of the
  settlement is neither reported nor swallowed.
\<close>

theorem poll_settle_error_escapes:
  "poll sample_cron outage_exec (sample_due 1) 61000 =
     ((sample_due 1)\<lparr>databasePromise := Some (Inl (Error ''connection lost'')),
          collection := [sample_task ''a'' 60000 (Some 61000)]\<rparr>,
      Inl (Error ''connection lost''))
   \<and> errorHandler (fst (poll sample_cron outage_exec (sample_due 1) 61000)) = []
   \<and> poll sample_cron outage_exec (sample_due 2) 61000 =
     ((sample_due 2)\<lparr>databasePromise := Some (Inl (Error ''connection lost'')),
          errorHandler := [Error ''boom''],
          collection := [sample_task ''a'' 60000 (Some 61000)]\<rparr>,
      Inl (Error ''connection lost''))"
  by (simp add: sample_due_def sample_state_def sample_task_def sample_cron_def poll_def
      receiveTask_def getMongoCollection_def findOneAndUpdate_def processTask_def
      outage_exec_def poll_settle_def poll_catch_def completeTask_def releaseTask_def
      updateTask_def)





end
